theory Spec2Isabelle
  imports Complex_Main
begin

section \<open>The ring-map maker of \<open>ch_pipeline/analysis/mapmaker.py\<close>\<close>

text \<open>
  A shallow embedding of \<open>RingMapMaker.process\<close>. The numpy arrays of the source hold
  IEEE doubles; here \<open>float64\<close> is the type \<open>real\<close> and \<open>complex128\<close> the type
  \<open>complex\<close>, so every arithmetic step is exact and rounding of the machine numbers is not
  part of the model. A five-dimensional array is a function of its five indices
  (frequency, polarisation, right ascension, cylinder separation, row-separation bin); only
  the indices inside the shape the source allocates are ever read.
\<close>

subsection \<open>Errors\<close>

text \<open>
  The exceptions that \<open>process\<close> can raise. \<open>EmptyScaleError\<close> stands for the exception of
  lines 110 to 117 when the list handed to \<open>np.percentile\<close> is empty: numpy either raises
  inside \<open>percentile\<close>, or returns NaN, which \<open>int(np.round(...))\<close> rejects with a
  \<open>ValueError\<close>. \<open>UnboundLocalError\<close> is the read of the local \<open>w\<close> that no branch
  of lines 137 to 147 has assigned.
\<close>

datatype error = IndexError | EmptyScaleError | UnboundLocalError

subsection \<open>Inputs\<close>

record feed =
  pol :: string
  cyl :: int
  pos_y :: real

record telescope =
  feeds :: "feed list"
  redundancy :: "real list"

record sstream =
  nfreq :: nat
  nra :: nat
  prods :: "(nat \<times> nat) list"
  vis :: "nat \<Rightarrow> nat \<Rightarrow> nat \<Rightarrow> complex"
  weight :: "nat \<Rightarrow> nat \<Rightarrow> nat \<Rightarrow> real"
  freq :: "nat \<Rightarrow> real"

record config =
  npix :: nat
  span :: real
  weighting :: string
  intracyl :: bool

subsection \<open>Baseline classification (lines 99 to 120)\<close>

text \<open>\<open>np.round\<close> rounds a half to the even neighbour.\<close>

definition np_round :: "real \<Rightarrow> int" where
  "np_round x =
     (let n = \<lfloor>x\<rfloor>; d = x - of_int n
      in if d < 1 / 2 then n else if 1 / 2 < d then n + 1
         else if even n then n else n + 1)"

text \<open>One pass of the loop of lines 101 to 108: \<open>(pol, xindex, ysep)\<close> of a feed pair.\<close>

definition feed_triple :: "feed list \<Rightarrow> nat \<times> nat \<Rightarrow> error + (nat \<times> nat \<times> real)" where
  "feed_triple fs ij =
     (case ij of (ii, jj) \<Rightarrow>
        if ii < length fs then
          if jj < length fs then
            (let fi = fs ! ii; fj = fs ! jj
             in Inr (2 * of_bool (pol fi = ''S'') + of_bool (pol fj = ''S''),
                     nat \<bar>cyl fi - cyl fj\<bar>,
                     pos_y fi - pos_y fj))
          else Inl IndexError
        else Inl IndexError)"

fun triples :: "feed list \<Rightarrow> (nat \<times> nat) list \<Rightarrow> error + (nat \<times> nat \<times> real) list" where
  "triples fs [] = Inr []"
| "triples fs (ij # rest) =
     (case feed_triple fs ij of
        Inl e \<Rightarrow> Inl e
      | Inr tr \<Rightarrow>
          (case triples fs rest of
             Inl e \<Rightarrow> Inl e
           | Inr trs \<Rightarrow> Inr (tr # trs)))"

record layout =
  feed_index :: "(nat \<times> nat \<times> int) list"
  min_ysep :: real
  nfeed :: int
  nvis_1d :: int
  ncyl :: nat
  nbeam :: nat

text \<open>
  Lines 110 to 120. The percentiles 0 and 100 of a non-empty list are its least and
  greatest element.
\<close>

definition classify :: "telescope \<Rightarrow> sstream \<Rightarrow> error + layout" where
  "classify tel ds =
     (case triples (feeds tel) (prods ds) of
        Inl e \<Rightarrow> Inl e
      | Inr trs \<Rightarrow>
          (let nz = filter (\<lambda>a. 0 < a) (map (\<lambda>(p, x, yy). \<bar>yy\<bar>) trs)
           in if nz = [] then Inl EmptyScaleError
              else
                (let lo = fold min nz (hd nz);
                     hi = fold max nz (hd nz);
                     nf = np_round (hi / lo);
                     nc = fold max (map (\<lambda>(p, x, yy). x) trs) 0 + 1
                 in Inr \<lparr>feed_index = map (\<lambda>(p, x, yy). (p, x, np_round (yy / lo))) trs,
                         min_ysep = lo,
                         nfeed = nf,
                         nvis_1d = 2 * nf - 1,
                         ncyl = nc,
                         nbeam = 2 * nc - 1\<rparr>)))"

subsection \<open>The grid packer (lines 126 to 169)\<close>

type_synonym 'a grid = "nat \<Rightarrow> nat \<Rightarrow> nat \<Rightarrow> nat \<Rightarrow> nat \<Rightarrow> 'a"

record grids =
  vdr :: "complex grid"
  wgh :: "real grid"
  smp :: "real grid"

definition zeros :: grids where
  "zeros = \<lparr>vdr = (\<lambda>f p t c b. 0), wgh = (\<lambda>f p t c b. 0), smp = (\<lambda>f p t c b. 0)\<rparr>"

text \<open>
  An integer index into an axis of length \<open>n\<close>: a negative index counts from the end, an
  index outside \<open>[-n, n)\<close> raises.
\<close>

definition py_index :: "int \<Rightarrow> int \<Rightarrow> error + nat" where
  "py_index n i =
     (if 0 \<le> i \<and> i < n then Inr (nat i)
      else if - n \<le> i \<and> i < 0 then Inr (nat (n + i))
      else Inl IndexError)"

text \<open>The assignment \<open>a[:, p, :, x, y] = src\<close>, with \<open>y\<close> already resolved.\<close>

definition put :: "'a grid \<Rightarrow> nat \<Rightarrow> nat \<Rightarrow> nat \<Rightarrow> (nat \<Rightarrow> nat \<Rightarrow> 'a) \<Rightarrow> 'a grid" where
  "put a p x y src =
     (\<lambda>f p' t x' y'. if p' = p \<and> x' = x \<and> y' = y then src f t else a f p' t x' y')"

text \<open>
  Lines 137 to 147. The last branch builds a \<open>KeyError\<close> and drops it without raising, so
  the loop goes on with \<open>w\<close> unassigned: that is the result \<open>None\<close>.
\<close>

definition select_w ::
  "config \<Rightarrow> telescope \<Rightarrow> sstream \<Rightarrow> nat \<Rightarrow> error + (nat \<Rightarrow> nat \<Rightarrow> real) option" where
  "select_w cfg tel ds vis_ind =
     (if weighting cfg = ''uniform'' then Inr (Some (\<lambda>f t. 1))
      else if weighting cfg = ''natural'' then
        (if vis_ind < length (redundancy tel)
         then Inr (Some (\<lambda>f t. redundancy tel ! vis_ind))
         else Inl IndexError)
      else if weighting cfg = ''inverse_variance'' then
        Inr (Some (\<lambda>f t. weight ds f vis_ind t))
      else Inr None)"

text \<open>
  One pass of the loop of lines 132 to 165. The arrays are mutated in place, so an exception
  leaves behind what the statements before it wrote: the error comes with the grids of that
  moment.
\<close>

definition pack_one ::
  "config \<Rightarrow> telescope \<Rightarrow> sstream \<Rightarrow> int \<Rightarrow> grids \<Rightarrow> nat \<Rightarrow> nat \<times> nat \<times> int
     \<Rightarrow> (error \<times> grids) + grids" where
  "pack_one cfg tel ds nv g vis_ind ind =
     (case ind of (p_ind, x_ind, y_ind) \<Rightarrow>
      (case select_w cfg tel ds vis_ind of
         Inl e \<Rightarrow> Inl (e, g)
       | Inr w \<Rightarrow>
           (let v = (\<lambda>f t. vis ds f vis_ind t); wt = (\<lambda>f t. weight ds f vis_ind t)
            in if x_ind = 0 \<and> intracyl cfg then
                 (case py_index nv y_ind of
                    Inl e \<Rightarrow> Inl (e, g)
                  | Inr y \<Rightarrow>
                      (let g1 = g\<lparr>vdr := put (vdr g) p_ind x_ind y v\<rparr>
                       in case py_index nv (- y_ind) of
                            Inl e \<Rightarrow> Inl (e, g1)
                          | Inr ym \<Rightarrow>
                              (let g2 = g1\<lparr>vdr := put (vdr g1) p_ind x_ind ym (\<lambda>f t. cnj (v f t))\<rparr>;
                                   g3 = g2\<lparr>wgh := put (wgh g2) p_ind x_ind y wt\<rparr>;
                                   g4 = g3\<lparr>wgh := put (wgh g3) p_ind x_ind ym wt\<rparr>
                               in case w of
                                    None \<Rightarrow> Inl (UnboundLocalError, g4)
                                  | Some wv \<Rightarrow>
                                      (let g5 = g4\<lparr>smp := put (smp g4) p_ind x_ind y wv\<rparr>
                                       in Inr (g5\<lparr>smp := put (smp g5) p_ind x_ind ym wv\<rparr>)))))
               else
                 (case py_index nv y_ind of
                    Inl e \<Rightarrow> Inl (e, g)
                  | Inr y \<Rightarrow>
                      (let g1 = g\<lparr>vdr := put (vdr g) p_ind x_ind y v\<rparr>;
                           g2 = g1\<lparr>wgh := put (wgh g1) p_ind x_ind y wt\<rparr>
                       in case w of
                            None \<Rightarrow> Inl (UnboundLocalError, g2)
                          | Some wv \<Rightarrow> Inr (g2\<lparr>smp := put (smp g2) p_ind x_ind y wv\<rparr>))))))"

text \<open>The loop over \<open>enumerate(feed_index)\<close>; \<open>vis_ind\<close> counts the passes.\<close>

fun pack_loop ::
  "config \<Rightarrow> telescope \<Rightarrow> sstream \<Rightarrow> int \<Rightarrow> nat \<Rightarrow> (nat \<times> nat \<times> int) list \<Rightarrow> grids
     \<Rightarrow> (error \<times> grids) + grids" where
  "pack_loop cfg tel ds nv vis_ind [] g = Inr g"
| "pack_loop cfg tel ds nv vis_ind (ind # rest) g =
     (case pack_one cfg tel ds nv g vis_ind ind of
        Inl eg \<Rightarrow> Inl eg
      | Inr g' \<Rightarrow> pack_loop cfg tel ds nv (Suc vis_ind) rest g')"

text \<open>Lines 167 to 169: \<open>smp[..., 0, 0] = 0.0\<close> when \<open>intracyl\<close> is set.\<close>

definition remove_auto :: "config \<Rightarrow> grids \<Rightarrow> grids" where
  "remove_auto cfg g =
     (if intracyl cfg
      then g\<lparr>smp := (\<lambda>f p t c b. if c = 0 \<and> b = 0 then 0 else smp g f p t c b)\<rparr>
      else g)"

text \<open>Lines 126 to 169 together: allocate, unpack, remove the auto-correlations.\<close>

definition pack_grids ::
  "config \<Rightarrow> telescope \<Rightarrow> sstream \<Rightarrow> layout \<Rightarrow> (error \<times> grids) + grids" where
  "pack_grids cfg tel ds lay =
     (case pack_loop cfg tel ds (nvis_1d lay) 0 (feed_index lay) zeros of
        Inl eg \<Rightarrow> Inl eg
      | Inr g \<Rightarrow> Inr (remove_auto cfg g))"

text \<open>
  The grids at the end of the packing stage of a run, or the error with the grids it left;
  a failure of the classifier comes before the allocation of line 127.
\<close>

definition packed :: "config \<Rightarrow> telescope \<Rightarrow> sstream \<Rightarrow> (error \<times> grids option) + grids" where
  "packed cfg tel ds =
     (case classify tel ds of
        Inl e \<Rightarrow> Inl (e, None)
      | Inr lay \<Rightarrow>
          (case pack_grids cfg tel ds lay of
             Inl (e, g) \<Rightarrow> Inl (e, Some g)
           | Inr g \<Rightarrow> Inr g))"

subsection \<open>The weight normaliser (lines 171 to 175)\<close>

text \<open>
  Modelled from the spec: \<open>ch_util.tools.invert_no_zero\<close> is imported from another
  package; the spec gives it as the inverse that sends a divisor that is exactly zero to zero.
\<close>

definition invert_no_zero :: "real \<Rightarrow> real" where
  "invert_no_zero x = (if x = 0 then 0 else 1 / x)"

text \<open>\<open>coeff = np.full(ncyl, 2.0); coeff[0] -= self.intracyl\<close>.\<close>

definition coeff_vec :: "config \<Rightarrow> nat \<Rightarrow> real" where
  "coeff_vec cfg c = (if c = 0 then 2 - of_bool (intracyl cfg) else 2)"

text \<open>
  \<open>np.dot(coeff, a)\<close> for a vector and a five-dimensional array: the sum product over the
  axis of the vector and the second-to-last axis of the array.
\<close>

definition dot_coeff ::
  "nat \<Rightarrow> (nat \<Rightarrow> real) \<Rightarrow> real grid \<Rightarrow> (nat \<Rightarrow> nat \<Rightarrow> nat \<Rightarrow> nat \<Rightarrow> real)" where
  "dot_coeff nc co a = (\<lambda>f p t b. \<Sum>c<nc. co c * a f p t c b)"

text \<open>\<open>np.sum(d, axis=-1)\<close>.\<close>

definition sum_last ::
  "nat \<Rightarrow> (nat \<Rightarrow> nat \<Rightarrow> nat \<Rightarrow> nat \<Rightarrow> real) \<Rightarrow> (nat \<Rightarrow> nat \<Rightarrow> nat \<Rightarrow> real)" where
  "sum_last nb d = (\<lambda>f p t. \<Sum>b<nb. d f p t b)"

definition normalize :: "config \<Rightarrow> layout \<Rightarrow> grids \<Rightarrow> grids" where
  "normalize cfg lay g =
     (let tot = sum_last (nat (nvis_1d lay)) (dot_coeff (ncyl lay) (coeff_vec cfg) (smp g))
      in g\<lparr>smp := (\<lambda>f p t c b. smp g f p t c b * invert_no_zero (tot f p t))\<rparr>)"

subsection \<open>The beam synthesiser (lines 177 to 213)\<close>

text \<open>\<open>np.linspace(-1.0, 1.0, n)\<close>: \<open>n\<close> evenly spaced samples, both ends included.\<close>

definition linspace :: "nat \<Rightarrow> nat \<Rightarrow> real" where
  "linspace n i = (if n \<le> 1 then - 1 else - 1 + real i * (2 / real (n - 1)))"

text \<open>\<open>np.fft.fftfreq(n, d)\<close>: the bins \<open>0, 1, ...\<close> up to the middle, then the negative ones.\<close>

definition fftfreq :: "nat \<Rightarrow> real \<Rightarrow> nat \<Rightarrow> real" where
  "fftfreq n d i =
     (if i \<le> (n - 1) div 2 then real i else real_of_int (int i - int n)) / (real n * d)"

text \<open>
  \<open>np.fft.irfft(a, n)\<close> along one axis: the inverse transform of the Hermitian completion
  of the first \<open>n div 2 + 1\<close> entries of \<open>a\<close>, with numpy's factor \<open>1 / n\<close>.
\<close>

definition irfft :: "nat \<Rightarrow> (nat \<Rightarrow> complex) \<Rightarrow> nat \<Rightarrow> real" where
  "irfft n a k =
     (Re (a 0)
      + 2 * (\<Sum>m = 1..<(n + 1) div 2.
               Re (a m * exp (2 * \<i> * of_real (pi * real m * real k / real n))))
      + (if even n then Re (a (n div 2)) * (- 1) ^ k else 0)) / real n"

record ringmap =
  rm_map :: "real grid"
  dirty_beam :: "real grid"
  rms :: "nat \<Rightarrow> nat \<Rightarrow> nat \<Rightarrow> real"

definition el :: "config \<Rightarrow> nat \<Rightarrow> real" where
  "el cfg i = span cfg * linspace (npix cfg) i"

definition vis_pos_1d :: "layout \<Rightarrow> nat \<Rightarrow> real" where
  "vis_pos_1d lay b =
     fftfreq (nat (nvis_1d lay)) (1 / (real_of_int (nvis_1d lay) * min_ysep lay)) b"

text \<open>Line 200, with \<open>scipy.constants.c\<close> the speed of light in metres per second.\<close>

definition wv :: "real \<Rightarrow> real" where
  "wv fr = 299792458 * (1 / 1000000) / fr"

text \<open>Line 204.\<close>

definition pa :: "config \<Rightarrow> layout \<Rightarrow> real \<Rightarrow> nat \<Rightarrow> nat \<Rightarrow> complex" where
  "pa cfg lay fr b i = exp (2 * \<i> * of_real (pi * vis_pos_1d lay b * el cfg i / wv fr))"

text \<open>
  \<open>np.dot(a, pa)\<close> for a four-dimensional \<open>a\<close> (one frequency of a grid): the sum product
  over the last axis of \<open>a\<close> and the first of \<open>pa\<close>.
\<close>

definition dot_pa ::
  "nat \<Rightarrow> (nat \<Rightarrow> nat \<Rightarrow> nat \<Rightarrow> nat \<Rightarrow> complex) \<Rightarrow> (nat \<Rightarrow> nat \<Rightarrow> complex)
     \<Rightarrow> (nat \<Rightarrow> nat \<Rightarrow> nat \<Rightarrow> nat \<Rightarrow> complex)" where
  "dot_pa nb a m = (\<lambda>p t c i. \<Sum>b<nb. a p t c b * m b i)"

text \<open>\<open>np.fft.irfft(d, n, axis=2) * n\<close>.\<close>

definition irfft_axis2 ::
  "nat \<Rightarrow> (nat \<Rightarrow> nat \<Rightarrow> nat \<Rightarrow> nat \<Rightarrow> complex) \<Rightarrow> (nat \<Rightarrow> nat \<Rightarrow> nat \<Rightarrow> nat \<Rightarrow> real)" where
  "irfft_axis2 n d = (\<lambda>p t k i. irfft n (\<lambda>c. d p t c i) k * real n)"

text \<open>
  Lines 191 to 211 on the normalised grids. The frequency axis is local to the process
  that runs the task; here one process holds all of it, so \<open>lfi = fi\<close>.
\<close>

definition synthesize :: "config \<Rightarrow> sstream \<Rightarrow> layout \<Rightarrow> grids \<Rightarrow> ringmap" where
  "synthesize cfg ds lay g =
     (let nb = nat (nvis_1d lay); co = coeff_vec cfg
      in \<lparr>rm_map = (\<lambda>fi. irfft_axis2 (nbeam lay)
                      (dot_pa nb (\<lambda>p t c b. of_real (smp g fi p t c b) * vdr g fi p t c b)
                         (pa cfg lay (freq ds fi)))),
          dirty_beam = (\<lambda>fi. irfft_axis2 (nbeam lay)
                      (dot_pa nb (\<lambda>p t c b. of_real (smp g fi p t c b))
                         (pa cfg lay (freq ds fi)))),
          rms = (\<lambda>f p t. sqrt (sum_last nb (dot_coeff (ncyl lay) co
                      (\<lambda>f p t c b. invert_no_zero (wgh g f p t c b) * (smp g f p t c b)\<^sup>2)) f p t))\<rparr>)"

text \<open>The normalised grids of a run: lines 99 to 175.\<close>

definition coefficients :: "config \<Rightarrow> telescope \<Rightarrow> sstream \<Rightarrow> error + grids" where
  "coefficients cfg tel ds =
     (case classify tel ds of
        Inl e \<Rightarrow> Inl e
      | Inr lay \<Rightarrow>
          (case pack_grids cfg tel ds lay of
             Inl (e, g) \<Rightarrow> Inl e
           | Inr g \<Rightarrow> Inr (normalize cfg lay g)))"

definition process :: "config \<Rightarrow> telescope \<Rightarrow> sstream \<Rightarrow> error + ringmap" where
  "process cfg tel ds =
     (case classify tel ds of
        Inl e \<Rightarrow> Inl e
      | Inr lay \<Rightarrow>
          (case pack_grids cfg tel ds lay of
             Inl (e, g) \<Rightarrow> Inl e
           | Inr g \<Rightarrow> Inr (synthesize cfg ds lay (normalize cfg lay g))))"

subsection \<open>Which cells a baseline assigns\<close>

text \<open>
  The cells \<open>(p, c, b)\<close> of the last three axes that one pass of the loop assigns for the
  index triple \<open>ind\<close>: the bin of \<open>y_ind\<close>, and in the intra-cylinder branch also the bin
  of \<open>-y_ind\<close>. The frequency and right-ascension axes are assigned as a whole.
\<close>

definition writes :: "config \<Rightarrow> int \<Rightarrow> nat \<times> nat \<times> int \<Rightarrow> nat \<Rightarrow> nat \<Rightarrow> nat \<Rightarrow> bool" where
  "writes cfg nv ind p c b =
     (case ind of (p_ind, x_ind, y_ind) \<Rightarrow>
        p_ind = p \<and> x_ind = c \<and>
        (py_index nv y_ind = Inr b
         \<or> (x_ind = 0 \<and> intracyl cfg \<and> py_index nv (- y_ind) = Inr b)))"

text \<open>The value of \<open>w\<close> in pass \<open>vis_ind\<close> of the loop, at frequency \<open>f\<close> and time \<open>t\<close>.\<close>

definition w_value :: "config \<Rightarrow> telescope \<Rightarrow> sstream \<Rightarrow> nat \<Rightarrow> nat \<Rightarrow> nat \<Rightarrow> real" where
  "w_value cfg tel ds vis_ind f t =
     (case select_w cfg tel ds vis_ind of Inr (Some sel) \<Rightarrow> sel f t | _ \<Rightarrow> 0)"

subsection \<open>The coefficient mass of a pixel\<close>


subsection \<open>A small array\<close>

text \<open>
  Four feeds of one polarisation: feeds 0 and 3 on cylinder 0 at rows 0 and 2, feed 1 on
  cylinder 1 at row 1, feed 2 on cylinder 2 at row 2. The baselines (0, 1) and (1, 2) have
  the same separation; (0, 3) is intra-cylinder; (0, 0) is an auto-correlation.
\<close>

definition ex_tel :: telescope where
  "ex_tel = \<lparr>feeds = [\<lparr>pol = ''E'', cyl = 0, pos_y = 0\<rparr>, \<lparr>pol = ''E'', cyl = 1, pos_y = 1\<rparr>,
                      \<lparr>pol = ''E'', cyl = 2, pos_y = 2\<rparr>, \<lparr>pol = ''E'', cyl = 0, pos_y = 2\<rparr>],
             redundancy = [1, 1, 1, 1]\<rparr>"

fun ex_vis :: "nat \<Rightarrow> nat \<Rightarrow> nat \<Rightarrow> complex" where
  "ex_vis f b t = Complex (real b + 1) 1"

fun ex_weight :: "nat \<Rightarrow> nat \<Rightarrow> nat \<Rightarrow> real" where
  "ex_weight f b t = real b + 1"

fun ex_freq :: "nat \<Rightarrow> real" where
  "ex_freq f = 600"

definition ex_ds :: sstream where
  "ex_ds = \<lparr>nfreq = 1, nra = 1, prods = [(0, 1), (1, 2), (0, 3), (0, 0)],
            vis = ex_vis, weight = ex_weight, freq = ex_freq\<rparr>"

definition ex_cfg :: "string \<Rightarrow> bool \<Rightarrow> config" where
  "ex_cfg w ic = \<lparr>npix = 4, span = 1, weighting = w, intracyl = ic\<rparr>"

definition ex_lay :: layout where
  "ex_lay = \<lparr>feed_index = [(0, 1, - 1), (0, 1, - 1), (0, 0, - 2), (0, 0, 0)],
             min_ysep = 1, nfeed = 2, nvis_1d = 3, ncyl = 2, nbeam = 3\<rparr>"

text \<open>The grids and the ring map of the runs on the small array.\<close>

definition ex_packed :: "string \<Rightarrow> bool \<Rightarrow> grids" where
  "ex_packed w ic = projr (packed (ex_cfg w ic) ex_tel ex_ds)"

definition ex_coefficients :: "string \<Rightarrow> bool \<Rightarrow> grids" where
  "ex_coefficients w ic = projr (coefficients (ex_cfg w ic) ex_tel ex_ds)"

definition ex_ringmap :: "string \<Rightarrow> bool \<Rightarrow> ringmap" where
  "ex_ringmap w ic = projr (process (ex_cfg w ic) ex_tel ex_ds)"





text \<open>
  Three baselines of the same telescope, the last two an intra-cylinder pair and its mirror.
\<close>

definition ex_mirror_ds :: sstream where
  "ex_mirror_ds = \<lparr>nfreq = 1, nra = 1, prods = [(0, 1), (0, 3), (3, 0)],
                   vis = ex_vis, weight = ex_weight, freq = ex_freq\<rparr>"

definition ex_mirror_lay :: layout where
  "ex_mirror_lay = \<lparr>feed_index = [(0, 1, - 1), (0, 0, - 2), (0, 0, 2)],
                    min_ysep = 1, nfeed = 2, nvis_1d = 3, ncyl = 2, nbeam = 3\<rparr>"

subsection \<open>Scaling the coefficient grid\<close>


section \<open>Properties\<close>

subsection \<open>The small array, evaluated\<close>

lemma floor_minus_one_real: "\<lfloor>- 1 :: real\<rfloor> = - 1"
  by (simp add: floor_eq_iff)

lemma ex_classify: "classify ex_tel ex_ds = Inr ex_lay"
  by (simp add: classify_def ex_tel_def ex_ds_def ex_lay_def feed_triple_def Let_def
      np_round_def floor_minus_one_real)

lemmas ex_pack_defs =
  pack_grids_def ex_lay_def pack_one_def select_w_def ex_cfg_def py_index_def Let_def
  put_def zeros_def remove_auto_def ex_ds_def ex_tel_def

lemma ex_pack_grids_ok:
  "\<not> isl (pack_grids (ex_cfg ''uniform'' ic) ex_tel ex_ds ex_lay)"
  by (cases ic) (simp_all add: ex_pack_defs)

lemma sum_Inr_projr: "\<not> isl x \<Longrightarrow> x = Inr (projr x)"
  by simp

lemma ex_packed_ok:
  "packed (ex_cfg ''uniform'' ic) ex_tel ex_ds = Inr (ex_packed ''uniform'' ic)"
  unfolding ex_packed_def
  by (rule sum_Inr_projr) (use ex_pack_grids_ok [of ic] in
      \<open>auto simp: packed_def ex_classify split: sum.splits\<close>)

lemma ex_coefficients_ok:
  "coefficients (ex_cfg ''uniform'' ic) ex_tel ex_ds = Inr (ex_coefficients ''uniform'' ic)"
  unfolding ex_coefficients_def
  by (rule sum_Inr_projr) (use ex_pack_grids_ok [of ic] in
      \<open>auto simp: coefficients_def ex_classify split: sum.splits\<close>)

lemma ex_process_ok:
  "process (ex_cfg ''uniform'' ic) ex_tel ex_ds = Inr (ex_ringmap ''uniform'' ic)"
  unfolding ex_ringmap_def
  by (rule sum_Inr_projr) (use ex_pack_grids_ok [of ic] in
      \<open>auto simp: process_def ex_classify split: sum.splits\<close>)

lemma ex_packed_cell:
  "vdr (ex_packed ''uniform'' True) 0 0 0 1 2 = Complex 2 1"
  "wgh (ex_packed ''uniform'' True) 0 0 0 1 2 = 2"
  "smp (ex_packed ''uniform'' True) 0 0 0 1 2 = 1"
  "vdr (ex_packed ''uniform'' True) 0 0 0 0 0 = Complex 4 (- 1)"
  unfolding ex_packed_def packed_def ex_classify
  by (simp_all add: ex_pack_defs complex_eq_iff)





lemma ex_mirror_classify: "classify ex_tel ex_mirror_ds = Inr ex_mirror_lay"
  by (simp add: classify_def ex_tel_def ex_mirror_ds_def ex_mirror_lay_def feed_triple_def Let_def
      np_round_def floor_minus_one_real)

lemma ex_mirror_packed:
  "\<not> isl (packed (ex_cfg ''uniform'' True) ex_tel ex_mirror_ds)"
  "vdr (projr (packed (ex_cfg ''uniform'' True) ex_tel ex_mirror_ds)) 0 0 0 0 1 = Complex 3 (- 1)"
  unfolding packed_def ex_mirror_classify
  by (simp_all add: pack_grids_def ex_mirror_lay_def pack_one_def select_w_def ex_cfg_def
      py_index_def Let_def put_def zeros_def remove_auto_def ex_mirror_ds_def complex_eq_iff)

subsection \<open>The last assignment to a cell stays\<close>

lemma pack_one_untouched:
  assumes "pack_one cfg tel ds nv g k ind = Inr g'" and "\<not> writes cfg nv ind p c b"
  shows "vdr g' f p t c b = vdr g f p t c b \<and> wgh g' f p t c b = wgh g f p t c b
         \<and> smp g' f p t c b = smp g f p t c b"
  using assms unfolding pack_one_def writes_def
  by (auto simp: put_def Let_def split: prod.splits sum.splits option.splits if_splits)

lemma pack_one_written:
  assumes "pack_one cfg tel ds nv g k (p, c, y) = Inr g'" and "writes cfg nv (p, c, y) p c b"
  shows "vdr g' f p t c b =
           (if c = 0 \<and> intracyl cfg \<and> py_index nv (- y) = Inr b
            then cnj (vis ds f k t) else vis ds f k t)"
    and "wgh g' f p t c b = weight ds f k t"
    and "smp g' f p t c b = w_value cfg tel ds k f t"
  using assms unfolding pack_one_def writes_def w_value_def
  by (auto simp: put_def Let_def split: prod.splits sum.splits option.splits if_splits)

lemma pack_loop_untouched:
  assumes "pack_loop cfg tel ds nv k inds g = Inr g'"
    and "\<forall>ind \<in> set inds. \<not> writes cfg nv ind p c b"
  shows "vdr g' f p t c b = vdr g f p t c b \<and> wgh g' f p t c b = wgh g f p t c b
         \<and> smp g' f p t c b = smp g f p t c b"
  using assms
proof (induction inds arbitrary: k g)
  case Nil
  then show ?case by simp
next
  case (Cons ind rest)
  then obtain g1 where one: "pack_one cfg tel ds nv g k ind = Inr g1"
    and more: "pack_loop cfg tel ds nv (Suc k) rest g1 = Inr g'"
    by (auto split: sum.splits)
  from Cons.prems(2) have "\<not> writes cfg nv ind p c b" by simp
  from pack_one_untouched [OF one this]
  have "vdr g1 f p t c b = vdr g f p t c b \<and> wgh g1 f p t c b = wgh g f p t c b
         \<and> smp g1 f p t c b = smp g f p t c b" .
  moreover from Cons.IH [OF more] Cons.prems(2)
  have "vdr g' f p t c b = vdr g1 f p t c b \<and> wgh g' f p t c b = wgh g1 f p t c b
         \<and> smp g' f p t c b = smp g1 f p t c b" by simp
  ultimately show ?case by simp
qed

lemma pack_loop_last_writer:
  assumes "pack_loop cfg tel ds nv k inds g = Inr g'"
    and "i < length inds" and "inds ! i = (p, c, y)"
    and "writes cfg nv (p, c, y) p c b"
    and "\<forall>j. i < j \<and> j < length inds \<longrightarrow> \<not> writes cfg nv (inds ! j) p c b"
  shows "vdr g' f p t c b =
           (if c = 0 \<and> intracyl cfg \<and> py_index nv (- y) = Inr b
            then cnj (vis ds f (k + i) t) else vis ds f (k + i) t)
         \<and> wgh g' f p t c b = weight ds f (k + i) t
         \<and> smp g' f p t c b = w_value cfg tel ds (k + i) f t"
  using assms
proof (induction inds arbitrary: k g i)
  case Nil
  then show ?case by simp
next
  case (Cons ind rest)
  then obtain g1 where one: "pack_one cfg tel ds nv g k ind = Inr g1"
    and more: "pack_loop cfg tel ds nv (Suc k) rest g1 = Inr g'"
    by (auto split: sum.splits)
  show ?case
  proof (cases i)
    case 0
    with Cons.prems(3) have ind: "ind = (p, c, y)" by simp
    have "\<forall>r \<in> set rest. \<not> writes cfg nv r p c b"
    proof
      fix r assume "r \<in> set rest"
      then obtain j where "j < length rest" "rest ! j = r" by (auto simp: in_set_conv_nth)
      with Cons.prems(5) 0 show "\<not> writes cfg nv r p c b"
        by (auto dest: spec [where x = "Suc j"])
    qed
    from pack_loop_untouched [OF more this]
    have keep: "vdr g' f p t c b = vdr g1 f p t c b \<and> wgh g' f p t c b = wgh g1 f p t c b
         \<and> smp g' f p t c b = smp g1 f p t c b" .
    from one ind have one': "pack_one cfg tel ds nv g k (p, c, y) = Inr g1" by simp
    from pack_one_written [OF one' Cons.prems(4)] keep 0 show ?thesis by simp
  next
    case (Suc i')
    from Cons.prems(2,3) Suc have a: "i' < length rest" "rest ! i' = (p, c, y)" by simp_all
    have b: "\<forall>j. i' < j \<and> j < length rest \<longrightarrow> \<not> writes cfg nv (rest ! j) p c b"
    proof (intro allI impI)
      fix j assume "i' < j \<and> j < length rest"
      with Cons.prems(5) Suc show "\<not> writes cfg nv (rest ! j) p c b"
        by (auto dest: spec [where x = "Suc j"])
    qed
    from Cons.IH [OF more a Cons.prems(4) b] Suc show ?thesis by simp
  qed
qed

lemma classify_shape:
  assumes "classify tel ds = Inr lay"
  shows "nvis_1d lay = 2 * nfeed lay - 1"
  using assms unfolding classify_def
  by (auto simp: Let_def split: sum.splits if_splits)


lemma packed_Inr:
  assumes "packed cfg tel ds = Inr g"
  obtains lay g0 where "classify tel ds = Inr lay"
    and "pack_loop cfg tel ds (nvis_1d lay) 0 (feed_index lay) zeros = Inr g0"
    and "g = remove_auto cfg g0"
  using assms unfolding packed_def pack_grids_def
  by (auto split: sum.splits prod.splits)

lemma pack_loop_last_in_list:
  assumes loop: "pack_loop cfg tel ds nv 0 inds g = Inr g'"
    and i: "i < length inds" and at: "inds ! i = (p, c, y)"
    and w: "writes cfg nv (p, c, y) p c b"
    and later: "list_all (\<lambda>ind. \<not> writes cfg nv ind p c b) (drop (Suc i) inds)"
  shows "vdr g' f p t c b =
           (if c = 0 \<and> intracyl cfg \<and> py_index nv (- y) = Inr b
            then cnj (vis ds f i t) else vis ds f i t)
         \<and> wgh g' f p t c b = weight ds f i t
         \<and> smp g' f p t c b = w_value cfg tel ds i f t"
proof -
  have "\<forall>j. i < j \<and> j < length inds \<longrightarrow> \<not> writes cfg nv (inds ! j) p c b"
  proof (intro allI impI)
    fix j assume j: "i < j \<and> j < length inds"
    then have "inds ! j = drop (Suc i) inds ! (j - Suc i)" by simp
    moreover from j have "j - Suc i < length (drop (Suc i) inds)" by auto
    ultimately have "inds ! j \<in> set (drop (Suc i) inds)"
      by (metis nth_mem)
    with later show "\<not> writes cfg nv (inds ! j) p c b"
      by (simp add: list_all_iff)
  qed
  from pack_loop_last_writer [OF loop i at w this, of f t] show ?thesis by simp
qed


lemma py_index_mirror:
  assumes "py_index (2 * nf - 1) k = Inr bp" and "py_index (2 * nf - 1) (- k) = Inr bm"
  shows "(bp = bm) = (k = 0) \<and> (bp = 0) = (k = 0) \<and> (bm = 0) = (k = 0)"
proof -
  consider "k = 0" | "0 < k" | "k < 0" by linarith
  then show ?thesis
  proof cases
    case 1
    with assms show ?thesis
      by (auto simp: py_index_def split: if_splits)
  next
    case 2
    with assms have "k < 2 * nf - 1" "bp = nat k" "bm = nat (2 * nf - 1 - k)"
      by (auto simp: py_index_def split: if_splits)
    moreover have "k \<noteq> 2 * nf - 1 - k" by presburger
    ultimately show ?thesis using 2 by auto
  next
    case 3
    with assms have "- k < 2 * nf - 1" "bm = nat (- k)" "bp = nat (2 * nf - 1 + k)"
      by (auto simp: py_index_def split: if_splits)
    moreover have "- k \<noteq> 2 * nf - 1 + k" by presburger
    ultimately show ?thesis using 3 by auto
  qed
qed

lemma remove_auto_cells:
  "vdr (remove_auto cfg g) = vdr g" "wgh (remove_auto cfg g) = wgh g"
  "smp (remove_auto cfg g) f p t c b
     = (if intracyl cfg \<and> c = 0 \<and> b = 0 then 0 else smp g f p t c b)"
  by (simp_all add: remove_auto_def)

subsection \<open>Normalisation and the sums of the synthesiser\<close>

lemma sum_last_dot_coeff:
  "sum_last nb (dot_coeff nc co a) f p t = (\<Sum>c<nc. co c * (\<Sum>b<nb. a f p t c b))"
proof -
  have "sum_last nb (dot_coeff nc co a) f p t = (\<Sum>b<nb. \<Sum>c<nc. co c * a f p t c b)"
    by (simp add: sum_last_def dot_coeff_def)
  also have "\<dots> = (\<Sum>c<nc. \<Sum>b<nb. co c * a f p t c b)"
    by (rule sum.swap)
  also have "\<dots> = (\<Sum>c<nc. co c * (\<Sum>b<nb. a f p t c b))"
    by (simp add: sum_distrib_left)
  finally show ?thesis .
qed




lemma process_Inr:
  assumes "process cfg tel ds = Inr rm"
  obtains lay gn where "classify tel ds = Inr lay" and "coefficients cfg tel ds = Inr gn"
    and "rm = synthesize cfg ds lay gn"
  using assms unfolding process_def coefficients_def
  by (auto split: sum.splits prod.splits)

subsection \<open>A single row of feeds\<close>





subsection \<open>The three weighting schemes\<close>











lemma synthesize_cong:
  assumes "npix cfg1 = npix cfg2" and "span cfg1 = span cfg2" and "intracyl cfg1 = intracyl cfg2"
  shows "synthesize cfg1 ds lay g = synthesize cfg2 ds lay g"
proof -
  have "coeff_vec cfg1 = coeff_vec cfg2" "pa cfg1 = pa cfg2"
    using assms by (simp_all add: coeff_vec_def pa_def el_def fun_eq_iff)
  then show ?thesis by (simp add: synthesize_def)
qed





subsection \<open>Claims\<close>

text \<open>
  C9. With \<open>intracyl\<close> set, once the packing stage has run to its end the sample coefficient
  at cylinder separation 0 and row-separation bin 0 is 0 at every frequency, polarisation and
  time, whatever the visibilities, weights and redundancies are.
\<close>

theorem C9_zero_spacing_coefficient:
  assumes "packed cfg tel ds = Inr g" and "intracyl cfg"
  shows "smp g f p t 0 0 = 0"
proof -
  from assms(1) obtain g0 where "g = remove_auto cfg g0"
    by (rule packed_Inr)
  with assms(2) show ?thesis
    by (simp add: remove_auto_def)
qed

theorem C9_zero_spacing_coefficient_witness:
  "packed (ex_cfg ''natural'' True) ex_tel ex_ds
     = Inr (projr (packed (ex_cfg ''natural'' True) ex_tel ex_ds))
   \<and> intracyl (ex_cfg ''natural'' True)
   \<and> smp (projr (packed (ex_cfg ''natural'' True) ex_tel ex_ds)) 0 0 0 0 0 = 0"
proof -
  have "\<not> isl (packed (ex_cfg ''natural'' True) ex_tel ex_ds)"
    unfolding packed_def ex_classify by (simp add: ex_pack_defs)
  then have ok: "packed (ex_cfg ''natural'' True) ex_tel ex_ds
     = Inr (projr (packed (ex_cfg ''natural'' True) ex_tel ex_ds))"
    by simp
  have ic: "intracyl (ex_cfg ''natural'' True)"
    by (simp add: ex_cfg_def)
  from C9_zero_spacing_coefficient [OF ok ic, of 0 0 0] ok ic show ?thesis
    by simp
qed

text \<open>
  C2, as amended. The loop assigns, it does not add: a cell holds what the last baseline
  in list order that assigns it has put there. When two or more baselines map to the same
  (frequency, polarisation, time, cylinder-separation, row-separation-bin) cell and baseline
  \<open>i\<close> is the last of them, the packed visibility and weight at the cell are those of
  baseline \<open>i\<close> alone (the conjugate, where the cell is its mirrored bin), and the sample
  coefficient is the \<open>w\<close> of baseline \<open>i\<close>, or 0 at cell (0, 0) when \<open>intracyl\<close> is set.
\<close>

theorem C2_last_assignment_stays:
  assumes "classify tel ds = Inr lay" and "packed cfg tel ds = Inr g"
    and "i < length (feed_index lay)" and "feed_index lay ! i = (p, c, y)"
    and "writes cfg (nvis_1d lay) (p, c, y) p c b"
    and "list_all (\<lambda>ind. \<not> writes cfg (nvis_1d lay) ind p c b) (drop (Suc i) (feed_index lay))"
  shows "vdr g f p t c b =
           (if c = 0 \<and> intracyl cfg \<and> py_index (nvis_1d lay) (- y) = Inr b
            then cnj (vis ds f i t) else vis ds f i t)
         \<and> wgh g f p t c b = weight ds f i t
         \<and> smp g f p t c b =
           (if intracyl cfg \<and> c = 0 \<and> b = 0 then 0 else w_value cfg tel ds i f t)"
proof -
  from assms(2) obtain lay' g0 where "classify tel ds = Inr lay'"
    and "pack_loop cfg tel ds (nvis_1d lay') 0 (feed_index lay') zeros = Inr g0"
    and g: "g = remove_auto cfg g0" by (rule packed_Inr)
  with assms(1) have loop: "pack_loop cfg tel ds (nvis_1d lay) 0 (feed_index lay) zeros = Inr g0"
    by simp
  from pack_loop_last_in_list [OF loop assms(3-6), of f t] show ?thesis
    unfolding g remove_auto_cells by simp
qed

theorem C2_last_assignment_stays_witness:
  "classify ex_tel ex_ds = Inr ex_lay
   \<and> packed (ex_cfg ''uniform'' True) ex_tel ex_ds = Inr (ex_packed ''uniform'' True)
   \<and> 1 < length (feed_index ex_lay)
   \<and> feed_index ex_lay ! 1 = (0, 1, - 1)
   \<and> writes (ex_cfg ''uniform'' True) (nvis_1d ex_lay) (0, 1, - 1) 0 1 2
   \<and> list_all (\<lambda>ind. \<not> writes (ex_cfg ''uniform'' True) (nvis_1d ex_lay) ind 0 1 2)
        (drop (Suc 1) (feed_index ex_lay))
   \<and> vdr (ex_packed ''uniform'' True) 0 0 0 1 2 = Complex 2 1
   \<and> wgh (ex_packed ''uniform'' True) 0 0 0 1 2 = 2
   \<and> smp (ex_packed ''uniform'' True) 0 0 0 1 2 = 1"
proof -
  have a: "1 < length (feed_index ex_lay)" and b: "feed_index ex_lay ! 1 = (0, 1, - 1)"
    by (simp_all add: ex_lay_def)
  have c: "writes (ex_cfg ''uniform'' True) (nvis_1d ex_lay) (0, 1, - 1) 0 1 2"
    by (simp add: writes_def ex_lay_def py_index_def)
  have d: "list_all (\<lambda>ind. \<not> writes (ex_cfg ''uniform'' True) (nvis_1d ex_lay) ind 0 1 2)
        (drop (Suc 1) (feed_index ex_lay))"
    by (simp add: writes_def ex_lay_def py_index_def)
  from C2_last_assignment_stays [OF ex_classify ex_packed_ok a b c d, of 0 0]
  have "vdr (ex_packed ''uniform'' True) 0 0 0 1 2 = Complex 2 1
   \<and> wgh (ex_packed ''uniform'' True) 0 0 0 1 2 = 2
   \<and> smp (ex_packed ''uniform'' True) 0 0 0 1 2 = w_value (ex_cfg ''uniform'' True) ex_tel ex_ds 1 0 0"
    by (simp add: ex_ds_def)
  with ex_classify ex_packed_ok a b c d show ?thesis
    by (simp add: w_value_def select_w_def ex_cfg_def)
qed

text \<open>
  C2 as stated fails on the small array: baselines 0 and 1 map to the same cell, and the cell
  holds the values of baseline 1, not the sums.
\<close>

theorem C2_sum_counterexample:
  "classify ex_tel ex_ds = Inr ex_lay
   \<and> feed_index ex_lay ! 0 = (0, 1, - 1) \<and> feed_index ex_lay ! 1 = (0, 1, - 1)
   \<and> py_index (nvis_1d ex_lay) (- 1) = Inr 2
   \<and> packed (ex_cfg ''uniform'' True) ex_tel ex_ds = Inr (ex_packed ''uniform'' True)
   \<and> vdr (ex_packed ''uniform'' True) 0 0 0 1 2 \<noteq> vis ex_ds 0 0 0 + vis ex_ds 0 1 0
   \<and> wgh (ex_packed ''uniform'' True) 0 0 0 1 2 \<noteq> weight ex_ds 0 0 0 + weight ex_ds 0 1 0
   \<and> smp (ex_packed ''uniform'' True) 0 0 0 1 2 \<noteq> 1 + 1"
  using ex_classify ex_packed_ok [of True] ex_packed_cell
  by (simp add: ex_lay_def py_index_def ex_ds_def complex_eq_iff)

text \<open>
  C4, as amended. For an intra-cylinder baseline \<open>i\<close> with row-separation bin \<open>k\<close>, with
  \<open>intracyl\<close> set and no later baseline assigning the two cells: the grid holds the
  conjugate of the visibility at bin \<open>-k\<close>, and the visibility itself at bin \<open>+k\<close> when
  \<open>k\<close> is not 0; at \<open>k = 0\<close> the two bins are one cell, which the second assignment
  leaves holding the conjugate. Weight and sample coefficient at the two bins are equal
  for every \<open>k\<close>.
\<close>

theorem C4_conjugate_fill:
  assumes "classify tel ds = Inr lay" and "packed cfg tel ds = Inr g" and "intracyl cfg"
    and "i < length (feed_index lay)" and "feed_index lay ! i = (p, 0, k)"
    and "py_index (nvis_1d lay) k = Inr bp" and "py_index (nvis_1d lay) (- k) = Inr bm"
    and "list_all (\<lambda>ind. \<not> writes cfg (nvis_1d lay) ind p 0 bp) (drop (Suc i) (feed_index lay))"
    and "list_all (\<lambda>ind. \<not> writes cfg (nvis_1d lay) ind p 0 bm) (drop (Suc i) (feed_index lay))"
  shows "vdr g f p t 0 bm = cnj (vis ds f i t)
         \<and> (k \<noteq> 0 \<longrightarrow> vdr g f p t 0 bp = vis ds f i t)
         \<and> (k = 0 \<longrightarrow> bp = bm)
         \<and> wgh g f p t 0 bp = wgh g f p t 0 bm
         \<and> smp g f p t 0 bp = smp g f p t 0 bm"
proof -
  from assms(2) obtain lay' g0 where "classify tel ds = Inr lay'"
    and "pack_loop cfg tel ds (nvis_1d lay') 0 (feed_index lay') zeros = Inr g0"
    and g: "g = remove_auto cfg g0" by (rule packed_Inr)
  with assms(1) have loop: "pack_loop cfg tel ds (nvis_1d lay) 0 (feed_index lay) zeros = Inr g0"
    by simp
  have shape: "nvis_1d lay = 2 * nfeed lay - 1"
    using assms(1) by (rule classify_shape)
  note mir = py_index_mirror [OF assms(6,7) [unfolded shape]]
  have wp: "writes cfg (nvis_1d lay) (p, 0, k) p 0 bp"
    using assms(6) by (simp add: writes_def)
  have wm: "writes cfg (nvis_1d lay) (p, 0, k) p 0 bm"
    using assms(3,7) by (simp add: writes_def)
  note at_p = pack_loop_last_in_list [OF loop assms(4,5) wp assms(8), of f t]
  note at_m = pack_loop_last_in_list [OF loop assms(4,5) wm assms(9), of f t]
  from at_p at_m mir assms(3,6,7) show ?thesis
    unfolding g remove_auto_cells by auto
qed

theorem C4_conjugate_fill_witness:
  "classify ex_tel ex_ds = Inr ex_lay
   \<and> packed (ex_cfg ''uniform'' True) ex_tel ex_ds = Inr (ex_packed ''uniform'' True)
   \<and> intracyl (ex_cfg ''uniform'' True)
   \<and> 2 < length (feed_index ex_lay)
   \<and> feed_index ex_lay ! 2 = (0, 0, - 2)
   \<and> py_index (nvis_1d ex_lay) (- 2) = Inr 1
   \<and> py_index (nvis_1d ex_lay) (- (- 2)) = Inr 2
   \<and> list_all (\<lambda>ind. \<not> writes (ex_cfg ''uniform'' True) (nvis_1d ex_lay) ind 0 0 1)
        (drop (Suc 2) (feed_index ex_lay))
   \<and> list_all (\<lambda>ind. \<not> writes (ex_cfg ''uniform'' True) (nvis_1d ex_lay) ind 0 0 2)
        (drop (Suc 2) (feed_index ex_lay))
   \<and> vdr (ex_packed ''uniform'' True) 0 0 0 0 2 = Complex 3 (- 1)
   \<and> vdr (ex_packed ''uniform'' True) 0 0 0 0 1 = Complex 3 1
   \<and> wgh (ex_packed ''uniform'' True) 0 0 0 0 1 = wgh (ex_packed ''uniform'' True) 0 0 0 0 2
   \<and> smp (ex_packed ''uniform'' True) 0 0 0 0 1 = smp (ex_packed ''uniform'' True) 0 0 0 0 2"
proof -
  have ic: "intracyl (ex_cfg ''uniform'' True)"
    by (simp add: ex_cfg_def)
  have a: "2 < length (feed_index ex_lay)" and b: "feed_index ex_lay ! 2 = (0, 0, - 2)"
    by (simp_all add: ex_lay_def)
  have bp: "py_index (nvis_1d ex_lay) (- 2) = Inr 1"
    and bm: "py_index (nvis_1d ex_lay) (- (- 2)) = Inr 2"
    by (simp_all add: ex_lay_def py_index_def)
  have d1: "list_all (\<lambda>ind. \<not> writes (ex_cfg ''uniform'' True) (nvis_1d ex_lay) ind 0 0 1)
        (drop (Suc 2) (feed_index ex_lay))"
    and d2: "list_all (\<lambda>ind. \<not> writes (ex_cfg ''uniform'' True) (nvis_1d ex_lay) ind 0 0 2)
        (drop (Suc 2) (feed_index ex_lay))"
    by (simp_all add: writes_def ex_lay_def py_index_def)
  from C4_conjugate_fill [OF ex_classify ex_packed_ok ic a b bp bm d1 d2, of 0 0]
  have "vdr (ex_packed ''uniform'' True) 0 0 0 0 2 = Complex 3 (- 1)
   \<and> vdr (ex_packed ''uniform'' True) 0 0 0 0 1 = Complex 3 1
   \<and> wgh (ex_packed ''uniform'' True) 0 0 0 0 1 = wgh (ex_packed ''uniform'' True) 0 0 0 0 2
   \<and> smp (ex_packed ''uniform'' True) 0 0 0 0 1 = smp (ex_packed ''uniform'' True) 0 0 0 0 2"
    by (simp add: ex_ds_def complex_eq_iff)
  with ex_classify ex_packed_ok [of True] ic a b bp bm d1 d2 show ?thesis
    by simp
qed

text \<open>
  C4 as stated fails at \<open>k = 0\<close>: baseline 3 of the small array has bin 0 and the
  visibility \<open>4 + i\<close>, and the cell holds \<open>4 - i\<close>. It fails also where a later baseline
  assigns the same cells: with the pair (0, 3) followed by its mirror (3, 0), the cell of bin
  \<open>+k\<close> of the first holds the conjugate of the visibility of the second.
\<close>

theorem C4_zero_bin_counterexample:
  "classify ex_tel ex_ds = Inr ex_lay
   \<and> feed_index ex_lay ! 3 = (0, 0, 0)
   \<and> py_index (nvis_1d ex_lay) 0 = Inr 0
   \<and> intracyl (ex_cfg ''uniform'' True)
   \<and> packed (ex_cfg ''uniform'' True) ex_tel ex_ds = Inr (ex_packed ''uniform'' True)
   \<and> vis ex_ds 0 3 0 = Complex 4 1
   \<and> vdr (ex_packed ''uniform'' True) 0 0 0 0 0 \<noteq> vis ex_ds 0 3 0
   \<and> classify ex_tel ex_mirror_ds = Inr ex_mirror_lay
   \<and> feed_index ex_mirror_lay ! 1 = (0, 0, - 2)
   \<and> py_index (nvis_1d ex_mirror_lay) (- 2) = Inr 1
   \<and> \<not> isl (packed (ex_cfg ''uniform'' True) ex_tel ex_mirror_ds)
   \<and> vis ex_mirror_ds 0 1 0 = Complex 2 1
   \<and> vdr (projr (packed (ex_cfg ''uniform'' True) ex_tel ex_mirror_ds)) 0 0 0 0 1
       \<noteq> vis ex_mirror_ds 0 1 0"
  using ex_classify ex_packed_ok [of True] ex_packed_cell ex_mirror_classify ex_mirror_packed
  by (simp add: ex_lay_def py_index_def ex_ds_def ex_cfg_def complex_eq_iff
      ex_mirror_lay_def ex_mirror_ds_def)





text \<open>
  C8. The RMS output at a (frequency, polarisation, time) pixel is the square root of the sum
  over \<open>c\<close> of \<open>coeff[c]\<close> times the sum over the bins of
  \<open>invert_no_zero(weight) * coefficient\<^sup>2\<close>, on the normalised coefficient grid and the packed
  weight grid; no transform is applied.
\<close>

theorem C8_rms:
  assumes "classify tel ds = Inr lay" and "coefficients cfg tel ds = Inr gn"
    and "process cfg tel ds = Inr rm"
  shows "rms rm f p t =
     sqrt (\<Sum>c<ncyl lay. coeff_vec cfg c *
             (\<Sum>b<nat (nvis_1d lay). invert_no_zero (wgh gn f p t c b) * (smp gn f p t c b)\<^sup>2))"
proof -
  from assms(3) obtain lay' gn' where "classify tel ds = Inr lay'"
    "coefficients cfg tel ds = Inr gn'" "rm = synthesize cfg ds lay' gn'" by (rule process_Inr)
  with assms(1,2) have "rm = synthesize cfg ds lay gn" by simp
  then show ?thesis by (simp add: synthesize_def Let_def sum_last_dot_coeff)
qed

theorem C8_rms_witness:
  "classify ex_tel ex_ds = Inr ex_lay
   \<and> coefficients (ex_cfg ''uniform'' True) ex_tel ex_ds = Inr (ex_coefficients ''uniform'' True)
   \<and> process (ex_cfg ''uniform'' True) ex_tel ex_ds = Inr (ex_ringmap ''uniform'' True)
   \<and> rms (ex_ringmap ''uniform'' True) 0 0 0 = sqrt (5 / 48)"
proof -
  have "(\<Sum>c<ncyl ex_lay. coeff_vec (ex_cfg ''uniform'' True) c *
          (\<Sum>b<nat (nvis_1d ex_lay).
             invert_no_zero (wgh (ex_coefficients ''uniform'' True) 0 0 0 c b)
             * (smp (ex_coefficients ''uniform'' True) 0 0 0 c b)\<^sup>2)) = 5 / 48"
    unfolding ex_coefficients_def coefficients_def ex_classify
    by (simp add: ex_pack_defs normalize_def sum_last_def dot_coeff_def invert_no_zero_def
        coeff_vec_def lessThan_Suc eval_nat_numeral)
  with C8_rms [OF ex_classify ex_coefficients_ok [of True] ex_process_ok [of True], of 0 0 0]
    ex_classify ex_coefficients_ok [of True] ex_process_ok [of True]
  show ?thesis by simp
qed







text \<open>
  C1. The claim asks for a configuration error before anything is written. The source builds
  the \<open>KeyError\<close> of line 147 without raising it: on the small array with the weighting
  \<open>bogus\<close>, the first pass assigns the visibility and the weight of baseline 0 to cell
  (polarisation 0, cylinder 1, bin 2), and only then fails, at the read of \<open>w\<close> in line 165,
  with an \<open>UnboundLocalError\<close>.
\<close>

theorem C1_unraised_key_error:
  "weighting (ex_cfg ''bogus'' True) \<noteq> ''uniform''
   \<and> weighting (ex_cfg ''bogus'' True) \<noteq> ''natural''
   \<and> weighting (ex_cfg ''bogus'' True) \<noteq> ''inverse_variance''
   \<and> process (ex_cfg ''bogus'' True) ex_tel ex_ds = Inl UnboundLocalError
   \<and> isl (packed (ex_cfg ''bogus'' True) ex_tel ex_ds)
   \<and> fst (projl (packed (ex_cfg ''bogus'' True) ex_tel ex_ds)) = UnboundLocalError
   \<and> vdr (the (snd (projl (packed (ex_cfg ''bogus'' True) ex_tel ex_ds)))) 0 0 0 1 2 = Complex 1 1
   \<and> wgh (the (snd (projl (packed (ex_cfg ''bogus'' True) ex_tel ex_ds)))) 0 0 0 1 2 = 1"
  unfolding packed_def process_def ex_classify
  by (simp add: ex_pack_defs complex_eq_iff)

end
